theory Spec2Isabelle
  imports Complex_Main "HOL-Library.Word" "HOL-Library.Char_ord" "HOL-Library.List_Lexorder"
begin

section \<open>Flight delay backend (newbackend.py)\<close>

text \<open>
  Conventions of the embedding.
  \<^item> Python \<open>str\<close> is \<open>string\<close>; text outside ASCII is written as its UTF-8 bytes.
  \<^item> Floating-point numbers are modelled by the real numbers they stand for: comparisons
    are exact, rounding of arithmetic and of the \<open>float32\<close> narrowing is not modelled,
    and a prediction is a finite number.
  \<^item> An exception is a value of type \<open>exn\<close>; a computation that may raise returns
    \<open>exn + 'a\<close> with \<open>Inl\<close> for the raised exception.
\<close>

subsection \<open>Exceptions\<close>

datatype exn =
    FileNotFoundError string
  | KeyError string
  | IndexError string
  | TypeError string
  | IntCastingNaNError string
  | LibraryError string

text \<open>\<open>str(e)\<close>: the message of an exception; a \<open>KeyError\<close> prints the repr of its key.\<close>

fun str_exn :: "exn \<Rightarrow> string" where
  "str_exn (FileNotFoundError m) = m"
| "str_exn (KeyError k) = [CHR 0x27] @ k @ [CHR 0x27]"
| "str_exn (IndexError m) = m"
| "str_exn (TypeError m) = m"
| "str_exn (IntCastingNaNError m) = m"
| "str_exn (LibraryError m) = m"

definition then_do :: "exn + 'a \<Rightarrow> ('a \<Rightarrow> exn + 'b) \<Rightarrow> exn + 'b" where
  "then_do r f = (case r of Inl e \<Rightarrow> Inl e | Inr x \<Rightarrow> f x)"

subsection \<open>Configuration and the suggestions database\<close>

definition TARGET_COLUMNS :: "string list" where
  "TARGET_COLUMNS = [''CARRIER_DELAY'', ''SECURITY_DELAY'', ''WEATHER_DELAY'']"

definition TAIL_NUMBER_COL :: string where
  "TAIL_NUMBER_COL = ''TAIL_NUMBER''"

definition CATEGORICAL_COLS_FOR_XGB :: "string list" where
  "CATEGORICAL_COLS_FOR_XGB =
     [''ORIGIN_AIRPORT_CODE'', ''DEST_AIRPORT_CODE'', ''MARKETING_AIRLINE'',
      ''ORIGIN_STATE'', ''DEST_STATE'', ''DEPARTURE_BLOCK'', ''ARRIVAL_BLOCK'']"

text \<open>The en dash (U+2013) and the em dash (U+2014) of the source's strings, in UTF-8.\<close>

definition en_dash :: string where
  "en_dash = [CHR 0xE2, CHR 0x80, CHR 0x93]"

definition em_dash :: string where
  "em_dash = [CHR 0xE2, CHR 0x80, CHR 0x94]"

definition carrier_suggestions :: "string list" where
  "carrier_suggestions =
     [''Check airline announcements for potential delays.'',
      ''Choose flights from carriers with high on-time performance.'',
      ''Arrive early to avoid long check-in queues.'',
      ''Avoid peak travel periods when airlines are heavily congested.'',
      ''Use airline mobile apps for real-time updates.'',
      ''Avoid tight layovers; keep at least 2 hours buffer.'',
      ''Check baggage rules to avoid extra processing delays.'',
      ''Complete online check-in early.'',
      ''If airline delay is confirmed, ask about rebooking options.'',
      ''Morning flights are generally more punctual'' @ em_dash @ ''consider choosing them.'']"

definition weather_suggestions :: "string list" where
  "weather_suggestions =
     [''Check weather forecasts for departure and destination.'',
      ''Avoid flights during seasons with frequent storms or fog.'',
      ''Keep extra travel buffer time during unstable weather.'',
      ''Bring portable chargers for long waiting hours.'',
      ''Track real-time gate updates at the airport.'',
      ''Use flight tracking apps like FlightAware.'',
      ''Plan your transportation early to avoid weather-caused traffic delays.'',
      ''Prefer major hub airports during bad weather seasons.'',
      ''Choose morning flights for more stable weather conditions.'',
      ''Request free rebooking if extreme weather occurs.'']"

definition security_suggestions :: "string list" where
  "security_suggestions =
     [''Arrive 2'' @ en_dash @ ''3 hours early to account for security delay.'',
      ''Avoid carrying liquids or metal items unnecessarily.'',
      ''Use automated e-gates if available.'',
      ''Avoid peak periods such as 7'' @ en_dash @ ''9am and 5'' @ en_dash @ ''7pm.'',
      ''Prepare electronics and documents in advance.'',
      ''Check if your airport provides Fast Track security lanes.'',
      ''Avoid clothing with heavy metal accessories.'',
      ''Follow airport social media for real-time congestion updates.'',
      ''Travel with only carry-on bags to skip baggage queues.'',
      ''Book earlier flights during festive / peak seasons.'']"

definition total_delay_advisory :: string where
  "total_delay_advisory =
     ''High total predicted delay; consider alternative flights or adding buffer time.''"

subsection \<open>Risk classification\<close>

definition risk_label :: "real \<Rightarrow> string" where
  "risk_label v =
     (let av = \<bar>v\<bar> in
      if av < 15 then ''LOW''
      else if av \<le> 60 then ''MEDIUM''
      else ''HIGH'')"

subsection \<open>Suggestion engine\<close>

text \<open>
  A row of the predictions table: the three predicted delay causes and their total.
  (The optional \<open>TAIL_NUMBER\<close> entry of the row is kept beside it, see below.)
\<close>

record prediction =
  CARRIER_DELAY :: real
  SECURITY_DELAY :: real
  WEATHER_DELAY :: real
  Total_Predicted_Delay :: real

text \<open>
  \<open>optimize_suggestions\<close> threads the list \<open>suggestions\<close> through four statements;
  \<open>extend(xs[:5])\<close> appends \<open>take 5 xs\<close>, \<open>append(xs[0])\<close> appends \<open>xs ! 0\<close>
  (the three tables have ten entries each, so the index is in range).
\<close>

definition optimize_suggestions :: "prediction \<Rightarrow> string list" where
  "optimize_suggestions row =
     (let suggestions = [];
          suggestions =
            (if CARRIER_DELAY row > 15 then suggestions @ take 5 carrier_suggestions
             else if CARRIER_DELAY row > 5 then suggestions @ [carrier_suggestions ! 0]
             else suggestions);
          suggestions =
            (if WEATHER_DELAY row > 10 then suggestions @ take 5 weather_suggestions
             else if WEATHER_DELAY row > 5 then suggestions @ [weather_suggestions ! 0]
             else suggestions);
          suggestions =
            (if SECURITY_DELAY row > 5 then suggestions @ take 5 security_suggestions
             else if SECURITY_DELAY row > 2 then suggestions @ [security_suggestions ! 0]
             else suggestions);
          suggestions =
            (if Total_Predicted_Delay row > 20 then suggestions @ [total_delay_advisory]
             else suggestions)
      in suggestions)"

text \<open>
  The rule table as the specification words it: per cause a high threshold that
  contributes the first five tips, else a low threshold that contributes the first tip,
  else nothing.
\<close>

definition spec_rule :: "real \<Rightarrow> real \<Rightarrow> string list \<Rightarrow> real \<Rightarrow> string list" where
  "spec_rule high low tips v =
     (if v > high then take 5 tips else if v > low then take 1 tips else [])"

subsection \<open>Data frames\<close>

text \<open>
  A cell of a table read from CSV is a number, a text, or missing (\<open>NaN\<close>). A data
  frame is its row count (a \<open>RangeIndex\<close>) and its labelled columns in order. The
  model covers frames whose column labels are pairwise distinct; boolean columns are
  not modelled.
\<close>

datatype cell = NaN | Num real | Str string

record dataframe =
  index :: nat
  columns :: "(string \<times> cell list) list"

definition column_names :: "dataframe \<Rightarrow> string list" where
  "column_names df = map fst (columns df)"

text \<open>\<open>df[c]\<close> under the test \<open>c in df.columns\<close>: \<open>None\<close> when the label is absent.\<close>

definition series :: "dataframe \<Rightarrow> string \<Rightarrow> cell list option" where
  "series df c = map_of (columns df) c"

text \<open>\<open>df[c] = v\<close>: an existing column is replaced in place, a new one is appended.\<close>

definition assign :: "dataframe \<Rightarrow> string \<Rightarrow> cell list \<Rightarrow> dataframe" where
  "assign df c v =
     (if c \<in> set (column_names df)
      then df\<lparr>columns := map (\<lambda>(k, x). if k = c then (k, v) else (k, x)) (columns df)\<rparr>
      else df\<lparr>columns := columns df @ [(c, v)]\<rparr>)"

fun is_text :: "cell \<Rightarrow> bool" where
  "is_text (Str s) = True"
| "is_text c = False"

fun map_num :: "(real \<Rightarrow> real) \<Rightarrow> cell \<Rightarrow> cell" where
  "map_num f (Num r) = Num (f r)"
| "map_num f c = c"

text \<open>
  The dtype \<open>read_csv\<close> infers: a column is numeric (\<open>int64\<close> or \<open>float64\<close>) when
  it has at least one row and no cell is text; a column of a frame without rows is
  \<open>object\<close>.
\<close>

definition is_numeric :: "cell list \<Rightarrow> bool" where
  "is_numeric v = (v \<noteq> [] \<and> \<not> list_ex is_text v)"

fun num_values :: "cell list \<Rightarrow> real list" where
  "num_values [] = []"
| "num_values (Num r # cs) = r # num_values cs"
| "num_values (c # cs) = num_values cs"

text \<open>\<open>Series.median()\<close> skips missing values; it is \<open>NaN\<close> when none is left.\<close>

definition median :: "cell list \<Rightarrow> cell" where
  "median v =
     (let s = sort (num_values v); n = length s in
      if n = 0 then NaN
      else if odd n then Num (s ! (n div 2))
      else Num ((s ! (n div 2 - 1) + s ! (n div 2)) / 2))"

definition fillna :: "cell \<Rightarrow> cell list \<Rightarrow> cell list" where
  "fillna val v = map (\<lambda>c. if c = NaN then val else c) v"

text \<open>
  Arithmetic of a column with a number, element by element: a missing cell stays
  missing, a text cell raises \<open>TypeError\<close>.
\<close>

definition arith :: "string \<Rightarrow> (real \<Rightarrow> real) \<Rightarrow> cell list \<Rightarrow> exn + cell list" where
  "arith msg f v = (if list_ex is_text v then Inl (TypeError msg) else Inr (map (map_num f) v))"

definition floordiv_msg :: string where
  "floordiv_msg = ''unsupported operand type(s) for //: '' @ [CHR 0x27] @ ''str'' @ [CHR 0x27] @
     '' and '' @ [CHR 0x27] @ ''int'' @ [CHR 0x27]"

definition mod_msg :: string where
  "mod_msg = ''not all arguments converted during string formatting''"

definition mul_msg :: string where
  "mul_msg = ''can'' @ [CHR 0x27] @ ''t multiply sequence by non-int of type '' @
     [CHR 0x27] @ ''float'' @ [CHR 0x27]"

text \<open>Python's \<open>//\<close> and \<open>%\<close> on numbers: floor division and its remainder.\<close>

definition floordiv :: "real \<Rightarrow> real \<Rightarrow> real" where
  "floordiv n r = of_int \<lfloor>r / n\<rfloor>"

definition pymod :: "real \<Rightarrow> real \<Rightarrow> real" where
  "pymod n r = r - n * of_int \<lfloor>r / n\<rfloor>"

text \<open>
  \<open>astype(np.int8)\<close>: a missing value raises; a number is truncated towards zero and
  narrowed to eight bits, two's complement. (From \<open>int64\<close> the narrowing wraps around;
  from \<open>float64\<close> NumPy leaves values beyond the \<open>int8\<close> range to the platform, and
  the model wraps them as well.)
\<close>

definition trunc :: "real \<Rightarrow> int" where
  "trunc r = (if 0 \<le> r then \<lfloor>r\<rfloor> else \<lceil>r\<rceil>)"

definition int8 :: "real \<Rightarrow> real" where
  "int8 r = of_int (sint (word_of_int (trunc r) :: 8 word))"

definition astype_int8 :: "cell list \<Rightarrow> exn + cell list" where
  "astype_int8 v =
     (if list_ex (\<lambda>c. c = NaN) v
      then Inl (IntCastingNaNError ''Cannot convert non-finite values (NA or inf) to integer'')
      else Inr (map (map_num int8) v))"

subsection \<open>Feature alignment\<close>

definition column_mapping :: "(string \<times> string) list" where
  "column_mapping =
     [(''MKT_UNIQUE_CARRIER'', ''MARKETING_AIRLINE''),
      (''OP_UNIQUE_CARRIER'', ''OPERATING_AIRLINE''),
      (''ORIGIN'', ''ORIGIN_AIRPORT_CODE''), (''ORIGIN_STATE_ABR'', ''ORIGIN_STATE''),
      (''DEST'', ''DEST_AIRPORT_CODE''), (''DEST_STATE_ABR'', ''DEST_STATE''),
      (''DEP_TIME_BLK'', ''DEPARTURE_BLOCK''), (''ARR_TIME_BLK'', ''ARRIVAL_BLOCK'')]"

definition rename :: "dataframe \<Rightarrow> dataframe" where
  "rename df =
     df\<lparr>columns :=
          map (\<lambda>(k, x). (case map_of column_mapping k of Some k' \<Rightarrow> k' | None \<Rightarrow> k, x))
            (columns df)\<rparr>"

text \<open>
  The loop over \<open>select_dtypes(include=[np.number]).columns\<close>: the labels are taken
  before the loop runs, and each step (\<open>fill_step\<close>) rewrites one column.
\<close>

definition fill_step :: "dataframe \<Rightarrow> string \<Rightarrow> dataframe" where
  "fill_step df col =
     (case series df col of
        Some x \<Rightarrow> assign df col (fillna (median x) x)
      | None \<Rightarrow> df)"

definition fill_missing :: "dataframe \<Rightarrow> dataframe" where
  "fill_missing df =
     foldl fill_step df (map fst (filter (\<lambda>(k, x). is_numeric x) (columns df)))"

text \<open>
  \<open>np.sin(2*np.pi*v/period).astype(np.float32)\<close> and its cosine twin, for a column
  \<open>v\<close>: the product with the column raises \<open>TypeError\<close> on text.
\<close>

definition encode :: "(real \<Rightarrow> real) \<Rightarrow> real \<Rightarrow> cell list \<Rightarrow> exn + cell list" where
  "encode f period v =
     then_do (arith mul_msg (\<lambda>r. 2 * pi * r / period) v) (\<lambda>a. Inr (map (map_num f) a))"

text \<open>
  The block under \<open>if 'CRS_DEP_TIME' in df_new.columns\<close>. The columns
  \<open>CRS_DEP_TIME\<close>, \<open>DEP_HOUR\<close> and \<open>DEP_MINUTE\<close> that later statements read back
  are the values \<open>t\<close>, \<open>h\<close> and \<open>m\<close>: no statement in between assigns to them.
\<close>

definition time_features :: "dataframe \<Rightarrow> exn + dataframe" where
  "time_features df =
     (case series df ''CRS_DEP_TIME'' of
        None \<Rightarrow> Inr df
      | Some t \<Rightarrow>
          then_do (then_do (arith floordiv_msg (floordiv 100) t) astype_int8) (\<lambda>h.
          let df = assign df ''DEP_HOUR'' h in
          then_do (then_do (arith mod_msg (pymod 100) t) astype_int8) (\<lambda>m.
          let df = assign df ''DEP_MINUTE'' m in
          then_do (encode sin 24 h) (\<lambda>hs.
          let df = assign df ''DEP_HOUR_SIN'' hs in
          then_do (encode cos 24 h) (\<lambda>hc.
          let df = assign df ''DEP_HOUR_COS'' hc in
          then_do (encode sin 60 m) (\<lambda>ms.
          let df = assign df ''DEP_MIN_SIN'' ms in
          then_do (encode cos 60 m) (\<lambda>mc.
          Inr (assign df ''DEP_MIN_COS'' mc))))))))"

text \<open>
  One round of the loop over \<open>['MONTH', 'DAY_OF_WEEK']\<close>; the column read for the
  cosine is the value \<open>v\<close> read for the sine.
\<close>

definition cyclic_feature :: "string \<Rightarrow> dataframe \<Rightarrow> exn + dataframe" where
  "cyclic_feature col df =
     (case series df col of
        None \<Rightarrow> Inr df
      | Some v \<Rightarrow>
          let period = (if col = ''MONTH'' then 12 else 7) in
          then_do (encode sin period v) (\<lambda>s.
          let df = assign df (col @ ''_SIN'') s in
          then_do (encode cos period v) (\<lambda>c.
          Inr (assign df (col @ ''_COS'') c))))"

definition cyclic_features :: "dataframe \<Rightarrow> exn + dataframe" where
  "cyclic_features df =
     then_do (cyclic_feature ''MONTH'' df) (cyclic_feature ''DAY_OF_WEEK'')"

text \<open>
  \<open>astype('category')\<close> changes the dtype of a column and none of its values; an absent
  categorical column is added with every cell missing.
\<close>

definition cat_step :: "dataframe \<Rightarrow> string \<Rightarrow> dataframe" where
  "cat_step df col =
     (case series df col of
        Some v \<Rightarrow> assign df col v
      | None \<Rightarrow> assign df col (replicate (index df) NaN))"

definition categorical_columns :: "dataframe \<Rightarrow> dataframe" where
  "categorical_columns df = foldl cat_step df CATEGORICAL_COLS_FOR_XGB"

fun str_values :: "cell list \<Rightarrow> string list" where
  "str_values [] = []"
| "str_values (Str s # cs) = s # str_values cs"
| "str_values (c # cs) = str_values cs"

text \<open>
  \<open>pd.get_dummies(df, columns=['OPERATING_AIRLINE'], prefix='AIRLINE', dtype='int8')\<close>:
  the column is removed and one indicator column per distinct value present is appended,
  the values in sorted order, labelled \<open>AIRLINE_\<close> and the value. \<open>fmt\<close> is how Python
  prints a number in such a label.
\<close>

definition categories :: "cell list \<Rightarrow> cell list" where
  "categories v =
     map Num (sort (remdups (num_values v))) @ map Str (sort (remdups (str_values v)))"

fun dummy_label :: "(real \<Rightarrow> string) \<Rightarrow> cell \<Rightarrow> string" where
  "dummy_label fmt (Str s) = ''AIRLINE_'' @ s"
| "dummy_label fmt (Num r) = ''AIRLINE_'' @ fmt r"
| "dummy_label fmt NaN = ''AIRLINE_''"

definition get_dummies :: "(real \<Rightarrow> string) \<Rightarrow> dataframe \<Rightarrow> dataframe" where
  "get_dummies fmt df =
     (case series df ''OPERATING_AIRLINE'' of
        None \<Rightarrow> df
      | Some v \<Rightarrow>
          df\<lparr>columns :=
               filter (\<lambda>(k, x). k \<noteq> ''OPERATING_AIRLINE'') (columns df) @
               map (\<lambda>c. (dummy_label fmt c, map (\<lambda>x. if x = c then Num 1 else Num 0) v))
                 (categories v)\<rparr>)"

text \<open>The steps of \<open>transform_data_for_inference\<close> before the alignment loop.\<close>

definition prepare :: "(real \<Rightarrow> string) \<Rightarrow> dataframe \<Rightarrow> exn + dataframe" where
  "prepare fmt df_new =
     then_do (time_features (fill_missing (rename df_new))) (\<lambda>df.
     then_do (cyclic_features df) (\<lambda>df.
     Inr (get_dummies fmt (categorical_columns df))))"

text \<open>
  The alignment loop: \<open>final_df\<close> starts with the rows of \<open>df_new\<close> and no column;
  a scalar assigned to a column fills every row.
\<close>

definition align :: "dataframe \<Rightarrow> string list \<Rightarrow> dataframe" where
  "align df_new trained_feature_names =
     foldl (\<lambda>final_df feature.
              assign final_df feature
                (case series df_new feature of
                   Some v \<Rightarrow> v
                 | None \<Rightarrow> replicate (index df_new) (Num 0)))
       \<lparr>index = index df_new, columns = []\<rparr> trained_feature_names"

definition transform_data_for_inference ::
    "(real \<Rightarrow> string) \<Rightarrow> dataframe \<Rightarrow> string list \<Rightarrow> exn + dataframe" where
  "transform_data_for_inference fmt df_new trained_feature_names =
     then_do (prepare fmt df_new) (\<lambda>df. Inr (align df trained_feature_names))"

subsection \<open>Predictions and anomalies\<close>

text \<open>
  The predictions table: the \<open>TAIL_NUMBER\<close> column when it has one, and per row the
  three predicted delays with their total. The table \<open>pd.DataFrame()\<close> of the start
  has no column and no row. The anomalies table has the same shape, with the three
  risk labels per row.
\<close>

record pred_frame =
  tail_numbers :: "cell list option"
  rows :: "prediction list"

record risks =
  CARRIER_DELAY_RISK :: string
  SECURITY_DELAY_RISK :: string
  WEATHER_DELAY_RISK :: string

record anomalies_frame =
  anomaly_tails :: "cell list option"
  anomaly_rows :: "risks list"

text \<open>
  A column inserted into a table is aligned on the row index: rows beyond its end are
  missing, entries beyond the table's rows are dropped.
\<close>

definition reindex :: "nat \<Rightarrow> cell list \<Rightarrow> cell list" where
  "reindex n v = take n v @ replicate (n - length v) NaN"

text \<open>
  Lines 198 to 201 of \<open>predict_csv\<close>. \<open>y_pred\<close> is the model's output, one row of
  three numbers in the order of \<open>TARGET_COLUMNS\<close> per input row; the total is the sum
  over the three columns, taken before \<open>TAIL_NUMBER\<close> is inserted.
\<close>

definition build_predictions :: "dataframe \<Rightarrow> (real \<times> real \<times> real) list \<Rightarrow> pred_frame" where
  "build_predictions uploaded y_pred =
     \<lparr>tail_numbers = map_option (reindex (length y_pred)) (series uploaded TAIL_NUMBER_COL),
      rows = map (\<lambda>(c, s, w). \<lparr>CARRIER_DELAY = c, SECURITY_DELAY = s, WEATHER_DELAY = w,
                               Total_Predicted_Delay = c + s + w\<rparr>) y_pred\<rparr>"

text \<open>The three \<open>apply(risk_label)\<close> columns of \<open>detect_anomalies\<close>, for one row.\<close>

definition risk_row :: "prediction \<Rightarrow> risks" where
  "risk_row row =
     \<lparr>CARRIER_DELAY_RISK = risk_label (CARRIER_DELAY row),
      SECURITY_DELAY_RISK = risk_label (SECURITY_DELAY row),
      WEATHER_DELAY_RISK = risk_label (WEATHER_DELAY row)\<rparr>"

definition detect_anomalies :: "pred_frame \<Rightarrow> anomalies_frame" where
  "detect_anomalies pred_df =
     \<lparr>anomaly_tails = tail_numbers pred_df, anomaly_rows = map risk_row (rows pred_df)\<rparr>"

subsection \<open>Responses\<close>

datatype json = Scalar cell | Array "json list" | Object "(string \<times> json) list"

text \<open>The comparison \<open>==\<close> of a column's cell with a value: a missing value equals nothing.\<close>

definition cell_eq :: "cell \<Rightarrow> cell \<Rightarrow> bool" where
  "cell_eq a b = (a \<noteq> NaN \<and> b \<noteq> NaN \<and> a = b)"

text \<open>A row of the anomalies table as a dictionary, keys in column order.\<close>

definition anomaly_record :: "cell \<Rightarrow> risks \<Rightarrow> json" where
  "anomaly_record t r =
     Object [(''TAIL_NUMBER'', Scalar t),
             (''CARRIER_DELAY_RISK'', Scalar (Str (CARRIER_DELAY_RISK r))),
             (''SECURITY_DELAY_RISK'', Scalar (Str (SECURITY_DELAY_RISK r))),
             (''WEATHER_DELAY_RISK'', Scalar (Str (WEATHER_DELAY_RISK r)))]"

text \<open>
  \<open>anomalies_df[anomalies_df[TAIL_NUMBER_COL] == tail]\<close>, as records: indexing the
  table by a label it does not have raises \<open>KeyError\<close>.
\<close>

definition select_anomalies :: "anomalies_frame \<Rightarrow> cell \<Rightarrow> exn + json list" where
  "select_anomalies anomalies tail =
     (case anomaly_tails anomalies of
        None \<Rightarrow> Inl (KeyError TAIL_NUMBER_COL)
      | Some ts \<Rightarrow>
          Inr (map (\<lambda>(t, r). anomaly_record t r)
                 (filter (\<lambda>(t, r). cell_eq t tail) (zip ts (anomaly_rows anomalies)))))"

text \<open>\<open>[0]\<close> and \<open>.iloc[0]\<close>: the first record, \<open>IndexError\<close> when there is none.\<close>

definition first_record :: "string \<Rightarrow> json list \<Rightarrow> exn + json" where
  "first_record msg rs = (case rs of [] \<Rightarrow> Inl (IndexError msg) | r # _ \<Rightarrow> Inr r)"

definition flight_result :: "cell \<Rightarrow> prediction \<Rightarrow> json \<Rightarrow> json" where
  "flight_result tail row anomalies =
     Object [(''TAIL_NUMBER'', Scalar tail),
             (''CARRIER_DELAY'', Scalar (Num (CARRIER_DELAY row))),
             (''WEATHER_DELAY'', Scalar (Num (WEATHER_DELAY row))),
             (''SECURITY_DELAY'', Scalar (Num (SECURITY_DELAY row))),
             (''Total_Predicted_Delay'', Scalar (Num (Total_Predicted_Delay row))),
             (''Anomalies'', anomalies),
             (''Optimization_Suggestions'',
                Array (map (\<lambda>s. Scalar (Str s)) (optimize_suggestions row)))]"

definition success_envelope :: "json list \<Rightarrow> json" where
  "success_envelope results =
     Object [(''status'', Scalar (Str ''success'')), (''predictions'', Array results)]"

definition error_envelope :: "string \<Rightarrow> json" where
  "error_envelope message =
     Object [(''status'', Scalar (Str ''error'')), (''message'', Scalar (Str message))]"

definition error_message :: "string \<Rightarrow> json" where
  "error_message message = Object [(''error'', Scalar (Str message))]"

subsection \<open>The upload endpoint\<close>

text \<open>Decimal digits of a row number, for \<open>f"Flight_{i}"\<close>.\<close>

fun str_nat :: "nat \<Rightarrow> string" where
  "str_nat n =
     (if n < 10 then [char_of (48 + n)]
      else str_nat (n div 10) @ [char_of (48 + n mod 10)])"

text \<open>ASCII white space, as \<open>str.strip()\<close> removes it from both ends of a line.\<close>

definition is_space :: "char \<Rightarrow> bool" where
  "is_space c = (of_char c \<in> {9, 10, 11, 12, 13, 28, 29, 30, 31, 32 :: nat})"

definition strip :: "string \<Rightarrow> string" where
  "strip s = rev (dropWhile is_space (rev (dropWhile is_space s)))"

definition MODEL_FILENAME :: string where
  "MODEL_FILENAME = ''flight_delay_predictor.joblib''"

text \<open>
  What a request meets outside the program: the outcome of \<open>pd.read_csv\<close> on the
  uploaded file, the text files on disk (a path to its lines, \<open>None\<close> when the path does
  not exist), the outcome of \<open>joblib.load\<close> with the \<open>predict\<close> method of the loaded
  model (an output that is not three numbers per row raises in the library and is part
  of the failure case), and Python's printing of numbers.
\<close>

record world =
  read_csv :: "exn + dataframe"
  files :: "string \<Rightarrow> string list option"
  joblib_load :: "string \<Rightarrow> exn + (dataframe \<Rightarrow> exn + (real \<times> real \<times> real) list)"
  number_format :: "real \<Rightarrow> string"

definition load_feature_names :: "(string \<Rightarrow> string list option) \<Rightarrow> string \<Rightarrow> exn + string list" where
  "load_feature_names fs filename =
     (case fs filename of
        None \<Rightarrow>
          Inl (FileNotFoundError
                 (''Feature names file '' @ [CHR 0x27] @ filename @ [CHR 0x27] @ '' not found.''))
      | Some f \<Rightarrow> Inr (map strip f))"

record state =
  uploaded_df :: dataframe
  predictions_df :: pred_frame
  anomalies_df :: anomalies_frame

definition initial_state :: state where
  "initial_state =
     \<lparr>uploaded_df = \<lparr>index = 0, columns = []\<rparr>,
      predictions_df = \<lparr>tail_numbers = None, rows = []\<rparr>,
      anomalies_df = \<lparr>anomaly_tails = None, anomaly_rows = []\<rparr>\<rparr>"

text \<open>The body of the loop over \<open>predictions_df.iterrows()\<close>, for row \<open>i\<close>.\<close>

definition row_result :: "pred_frame \<Rightarrow> anomalies_frame \<Rightarrow> nat \<Rightarrow> exn + json" where
  "row_result pred anomalies i =
     (let row = rows pred ! i;
          tail = (case tail_numbers pred of
                    Some ts \<Rightarrow> ts ! i
                  | None \<Rightarrow> Str (''Flight_'' @ str_nat i))
      in then_do (then_do (select_anomalies anomalies tail)
                    (first_record ''list index out of range''))
           (\<lambda>a. Inr (flight_result tail row a)))"

text \<open>The loop: the first exception ends it.\<close>

fun collect :: "(nat \<Rightarrow> exn + json) \<Rightarrow> nat list \<Rightarrow> exn + json list" where
  "collect f [] = Inr []"
| "collect f (i # is) = then_do (f i) (\<lambda>r. then_do (collect f is) (\<lambda>rs. Inr (r # rs)))"

text \<open>
  Lines 194 to 197 of \<open>predict_csv\<close>: the feature names, the aligned matrix, the
  model and its output. None of them assigns a global.
\<close>

definition run_model :: "world \<Rightarrow> dataframe \<Rightarrow> exn + (real \<times> real \<times> real) list" where
  "run_model w uploaded =
     then_do (load_feature_names (files w) ''feature_names.txt'') (\<lambda>feature_names.
     then_do (transform_data_for_inference (number_format w) uploaded feature_names) (\<lambda>X_inf.
     then_do (joblib_load w MODEL_FILENAME) (\<lambda>model.
     model X_inf)))"

text \<open>
  The \<open>try\<close> block of \<open>predict_csv\<close>: the new state with the value returned or the
  exception raised. Each global is assigned where the source assigns it, so a later
  exception leaves the earlier assignments in place.
\<close>

definition predict_csv_try :: "world \<Rightarrow> state \<Rightarrow> state \<times> (exn + json)" where
  "predict_csv_try w st =
     (case read_csv w of
        Inl e \<Rightarrow> (st, Inl e)
      | Inr df \<Rightarrow>
          let st = st\<lparr>uploaded_df := df\<rparr> in
          (case run_model w (uploaded_df st) of
             Inl e \<Rightarrow> (st, Inl e)
           | Inr y_pred \<Rightarrow>
               let st = st\<lparr>predictions_df := build_predictions (uploaded_df st) y_pred\<rparr>;
                   st = st\<lparr>anomalies_df := detect_anomalies (predictions_df st)\<rparr>
               in (case collect (row_result (predictions_df st) (anomalies_df st))
                           [0 ..< length (rows (predictions_df st))] of
                     Inl e \<Rightarrow> (st, Inl e)
                   | Inr results \<Rightarrow> (st, Inr (success_envelope results)))))"

text \<open>
  \<open>predict_csv\<close> with its handler \<open>except Exception as e\<close>. The second component is
  \<open>Inr\<close> of the response returned, or \<open>Inl\<close> of an exception that leaves the endpoint.
\<close>

definition predict_csv :: "world \<Rightarrow> state \<Rightarrow> state \<times> (exn + json)" where
  "predict_csv w st =
     (case predict_csv_try w st of
        (st', Inl e) \<Rightarrow> (st', Inr (error_envelope (str_exn e)))
      | (st', Inr response) \<Rightarrow> (st', Inr response))"

subsection \<open>The lookup endpoint\<close>

text \<open>
  \<open>predictions_df.empty\<close> holds when the table has no row or no column; a table with
  rows has the four delay columns. Nothing catches an exception raised here.
\<close>

definition get_flight_info :: "state \<Rightarrow> string \<Rightarrow> exn + json" where
  "get_flight_info st tail_number =
     (if rows (predictions_df st) = []
      then Inr (error_message ''No predictions available. Please upload a CSV first.'')
      else
        (case tail_numbers (predictions_df st) of
           None \<Rightarrow> Inl (KeyError TAIL_NUMBER_COL)
         | Some ts \<Rightarrow>
             (case filter (\<lambda>(t, r). cell_eq t (Str tail_number))
                     (zip ts (rows (predictions_df st))) of
                [] \<Rightarrow> Inr (error_message ''Tail number not found.'')
              | (t, row) # _ \<Rightarrow>
                  then_do (then_do (select_anomalies (anomalies_df st) (Str tail_number))
                             (first_record ''single positional indexer is out-of-bounds''))
                    (\<lambda>anomalies. Inr (flight_result t row anomalies)))))"


subsection \<open>Columns the alignment derives\<close>

text \<open>
  Names for what the statements below are about: the hour and minute columns derived from
  a time column, the sine or cosine encoding of a column over a period, the frames that
  the time block and one round of the month and weekday loop leave when nothing raises,
  and the labels they write.
\<close>

definition hours :: "cell list \<Rightarrow> cell list" where
  "hours t = map (map_num (\<lambda>r. int8 (floordiv 100 r))) t"

definition minutes :: "cell list \<Rightarrow> cell list" where
  "minutes t = map (map_num (\<lambda>r. int8 (pymod 100 r))) t"

definition cyc :: "(real \<Rightarrow> real) \<Rightarrow> real \<Rightarrow> cell list \<Rightarrow> cell list" where
  "cyc f p v = map (map_num (\<lambda>r. f (2 * pi * r / p))) v"

definition with_time :: "dataframe \<Rightarrow> cell list \<Rightarrow> dataframe" where
  "with_time df t =
     assign (assign (assign (assign (assign (assign df
       ''DEP_HOUR'' (hours t))
       ''DEP_MINUTE'' (minutes t))
       ''DEP_HOUR_SIN'' (cyc sin 24 (hours t)))
       ''DEP_HOUR_COS'' (cyc cos 24 (hours t)))
       ''DEP_MIN_SIN'' (cyc sin 60 (minutes t)))
       ''DEP_MIN_COS'' (cyc cos 60 (minutes t))"

definition time_columns :: "string list" where
  "time_columns = [''DEP_HOUR'', ''DEP_MINUTE'', ''DEP_HOUR_SIN'', ''DEP_HOUR_COS'',
     ''DEP_MIN_SIN'', ''DEP_MIN_COS'']"

definition period_of :: "string \<Rightarrow> real" where
  "period_of col = (if col = ''MONTH'' then 12 else 7)"

definition with_cyclic :: "string \<Rightarrow> dataframe \<Rightarrow> cell list \<Rightarrow> dataframe" where
  "with_cyclic col df v =
     assign (assign df (col @ ''_SIN'') (cyc sin (period_of col) v))
       (col @ ''_COS'') (cyc cos (period_of col) v)"

definition cyclic_columns :: "string list" where
  "cyclic_columns = [''MONTH_SIN'', ''MONTH_COS'', ''DAY_OF_WEEK_SIN'', ''DAY_OF_WEEK_COS'']"

text \<open>
  A column after the imputation step, and the tables on which the time, month and weekday
  steps do not raise: \<open>CRS_DEP_TIME\<close> without text and, once imputed, without a missing
  value; \<open>MONTH\<close> and \<open>DAY_OF_WEEK\<close> without text.
\<close>

definition imputed :: "cell list \<Rightarrow> cell list" where
  "imputed x = (if is_numeric x then fillna (median x) x else x)"



subsection \<open>Sample requests\<close>

text \<open>
  Concrete uploads for the examples: a feature list of two names, a model that returns
  the first rows of a fixed output (one per row of its input), and small tables.
\<close>

definition sample_world :: "dataframe \<Rightarrow> (real \<times> real \<times> real) list \<Rightarrow> world" where
  "sample_world df y =
     \<lparr>read_csv = Inr df,
      files = (\<lambda>p. if p = ''feature_names.txt''
                   then Some [''ORIGIN_AIRPORT_CODE'' @ [CHR 0x0A], ''DEP_HOUR'' @ [CHR 0x0A]]
                   else None),
      joblib_load = (\<lambda>p. Inr (\<lambda>X. Inr (take (index X) y))),
      number_format = (\<lambda>r. ''?'')\<rparr>"

definition no_files_world :: world where
  "no_files_world =
     \<lparr>read_csv = Inr \<lparr>index = 1, columns = [(''ORIGIN'', [Str ''JFK''])]\<rparr>,
      files = (\<lambda>p. None),
      joblib_load = (\<lambda>p. Inr (\<lambda>X. Inr [(20, 8, 15)])),
      number_format = (\<lambda>r. ''?'')\<rparr>"

definition missing_file_message :: string where
  "missing_file_message =
     ''Feature names file '' @ [CHR 0x27] @ ''feature_names.txt'' @ [CHR 0x27] @ '' not found.''"

definition header_only :: dataframe where
  "header_only = \<lparr>index = 0, columns = [(''ORIGIN'', []), (''DEST'', [])]\<rparr>"

definition one_flight :: dataframe where
  "one_flight = \<lparr>index = 1, columns = [(''ORIGIN'', [Str ''JFK'']), (''DEST'', [Str ''LAX''])]\<rparr>"

definition same_tail_twice :: dataframe where
  "same_tail_twice =
     \<lparr>index = 2,
      columns = [(''TAIL_NUMBER'', [Str ''N100'', Str ''N100'']),
                 (''ORIGIN'', [Str ''JFK'', Str ''SFO''])]\<rparr>"



definition batch_a :: dataframe where
  "batch_a = \<lparr>index = 3, columns = [(''DISTANCE'', [NaN, Num 10, Num 20])]\<rparr>"

definition batch_b :: dataframe where
  "batch_b = \<lparr>index = 3, columns = [(''DISTANCE'', [NaN, Num 10, Num 40])]\<rparr>"


section \<open>Properties\<close>

subsection \<open>Risk classification\<close>

text \<open>
  Claim C1. \<open>risk_label\<close> is defined for every real value and classifies its absolute
  value: \<open>LOW\<close> exactly below 15, \<open>MEDIUM\<close> exactly from 15 to 60 inclusive,
  \<open>HIGH\<close> exactly above 60; the five sample values of the specification are classified
  as it says.
\<close>

theorem risk_label_thresholds:
  "(risk_label v = ''LOW'' \<longleftrightarrow> \<bar>v\<bar> < 15) \<and>
   (risk_label v = ''MEDIUM'' \<longleftrightarrow> 15 \<le> \<bar>v\<bar> \<and> \<bar>v\<bar> \<le> 60) \<and>
   (risk_label v = ''HIGH'' \<longleftrightarrow> \<bar>v\<bar> > 60) \<and>
   risk_label 14.9 = ''LOW'' \<and> risk_label 15 = ''MEDIUM'' \<and> risk_label 60 = ''MEDIUM'' \<and>
   risk_label 60.1 = ''HIGH'' \<and> risk_label (- 70) = ''HIGH''"
  by (simp add: risk_label_def Let_def)

subsection \<open>Suggestion engine\<close>

lemma tips_disjoint:
  "set carrier_suggestions \<inter> set weather_suggestions = {}"
  "set carrier_suggestions \<inter> set security_suggestions = {}"
  "total_delay_advisory \<notin> set carrier_suggestions"
  by (simp_all add: carrier_suggestions_def weather_suggestions_def security_suggestions_def
      total_delay_advisory_def en_dash_def em_dash_def)

lemma optimize_suggestions_eq:
  "optimize_suggestions row =
      spec_rule 15 5 carrier_suggestions (CARRIER_DELAY row) @
      spec_rule 10 5 weather_suggestions (WEATHER_DELAY row) @
      spec_rule 5 2 security_suggestions (SECURITY_DELAY row) @
      (if Total_Predicted_Delay row > 20 then [total_delay_advisory] else [])"
  by (simp add: optimize_suggestions_def spec_rule_def Let_def
       carrier_suggestions_def weather_suggestions_def security_suggestions_def)

lemma set_spec_rule: "set (spec_rule h l tips v) \<subseteq> set tips"
  by (auto simp: spec_rule_def dest: in_set_takeD)

lemma no_carrier_tip:
  assumes c: "CARRIER_DELAY row \<le> 5"
  shows "set (optimize_suggestions row) \<inter> set carrier_suggestions = {}"
proof -
  have w: "set (spec_rule 10 5 weather_suggestions (WEATHER_DELAY row)) \<inter> set carrier_suggestions = {}"
    using set_spec_rule [of 10 5 weather_suggestions] tips_disjoint(1) by blast
  have s: "set (spec_rule 5 2 security_suggestions (SECURITY_DELAY row)) \<inter> set carrier_suggestions = {}"
    using set_spec_rule [of 5 2 security_suggestions] tips_disjoint(2) by blast
  have "spec_rule 15 5 carrier_suggestions (CARRIER_DELAY row) = []"
    using c by (simp add: spec_rule_def)
  then show ?thesis
    using w s tips_disjoint(3) by (auto simp: optimize_suggestions_eq Int_Un_distrib2)
qed

lemma carrier_split:
  "optimize_suggestions row =
     spec_rule 15 5 carrier_suggestions (CARRIER_DELAY row) @
     optimize_suggestions (row\<lparr>CARRIER_DELAY := 0\<rparr>)"
  by (simp add: optimize_suggestions_eq) (simp add: spec_rule_def)

text \<open>
  Claim C3. The suggestion list is the concatenation, in the order carrier, weather,
  security, of what each cause's two-tier rule contributes (high tier first, the low tier
  only when the high one did not fire; thresholds 15/5, 10/5 and 5/2), followed by the
  total-delay advisory. The other causes never contribute a carrier tip, so a carrier
  delay above 15 (such as 16) contributes exactly the first five carrier tips, one above 5
  and at most 15 (such as 6) exactly the first carrier tip, and one of at most 5 (such as
  4) none. The result is a function of the row.
\<close>

theorem optimize_suggestions_tiers:
  "optimize_suggestions row =
      spec_rule 15 5 carrier_suggestions (CARRIER_DELAY row) @
      spec_rule 10 5 weather_suggestions (WEATHER_DELAY row) @
      spec_rule 5 2 security_suggestions (SECURITY_DELAY row) @
      (if Total_Predicted_Delay row > 20 then [total_delay_advisory] else [])
   \<and> set (optimize_suggestions (row\<lparr>CARRIER_DELAY := 0\<rparr>)) \<inter> set carrier_suggestions = {}
   \<and> (CARRIER_DELAY row > 15 \<longrightarrow>
        optimize_suggestions row =
          take 5 carrier_suggestions @ optimize_suggestions (row\<lparr>CARRIER_DELAY := 0\<rparr>))
   \<and> (5 < CARRIER_DELAY row \<and> CARRIER_DELAY row \<le> 15 \<longrightarrow>
        optimize_suggestions row =
          [carrier_suggestions ! 0] @ optimize_suggestions (row\<lparr>CARRIER_DELAY := 0\<rparr>))
   \<and> (CARRIER_DELAY row \<le> 5 \<longrightarrow>
        optimize_suggestions row = optimize_suggestions (row\<lparr>CARRIER_DELAY := 0\<rparr>))"
proof (intro conjI impI)
  show "optimize_suggestions row =
      spec_rule 15 5 carrier_suggestions (CARRIER_DELAY row) @
      spec_rule 10 5 weather_suggestions (WEATHER_DELAY row) @
      spec_rule 5 2 security_suggestions (SECURITY_DELAY row) @
      (if Total_Predicted_Delay row > 20 then [total_delay_advisory] else [])"
    by (rule optimize_suggestions_eq)
  show "set (optimize_suggestions (row\<lparr>CARRIER_DELAY := 0\<rparr>)) \<inter> set carrier_suggestions = {}"
    by (rule no_carrier_tip) simp
next
  assume "CARRIER_DELAY row > 15"
  then show "optimize_suggestions row =
          take 5 carrier_suggestions @ optimize_suggestions (row\<lparr>CARRIER_DELAY := 0\<rparr>)"
    using carrier_split [of row] by (simp add: spec_rule_def)
next
  assume "5 < CARRIER_DELAY row \<and> CARRIER_DELAY row \<le> 15"
  then show "optimize_suggestions row =
          [carrier_suggestions ! 0] @ optimize_suggestions (row\<lparr>CARRIER_DELAY := 0\<rparr>)"
    using carrier_split [of row] by (simp add: spec_rule_def carrier_suggestions_def)
next
  assume "CARRIER_DELAY row \<le> 5"
  then show "optimize_suggestions row = optimize_suggestions (row\<lparr>CARRIER_DELAY := 0\<rparr>)"
    using carrier_split [of row] by (simp add: spec_rule_def)
qed

theorem optimize_suggestions_tiers_witness:
  "optimize_suggestions
     \<lparr>CARRIER_DELAY = 16, SECURITY_DELAY = 0, WEATHER_DELAY = 0, Total_Predicted_Delay = 16\<rparr>
     = take 5 carrier_suggestions
   \<and> optimize_suggestions
     \<lparr>CARRIER_DELAY = 6, SECURITY_DELAY = 0, WEATHER_DELAY = 0, Total_Predicted_Delay = 6\<rparr>
     = [''Check airline announcements for potential delays.'']
   \<and> optimize_suggestions
     \<lparr>CARRIER_DELAY = 4, SECURITY_DELAY = 0, WEATHER_DELAY = 0, Total_Predicted_Delay = 4\<rparr>
     = []"
  using
    optimize_suggestions_tiers
      [of "\<lparr>CARRIER_DELAY = 16, SECURITY_DELAY = 0, WEATHER_DELAY = 0, Total_Predicted_Delay = 16\<rparr>"]
    optimize_suggestions_tiers
      [of "\<lparr>CARRIER_DELAY = 6, SECURITY_DELAY = 0, WEATHER_DELAY = 0, Total_Predicted_Delay = 6\<rparr>"]
    optimize_suggestions_tiers
      [of "\<lparr>CARRIER_DELAY = 4, SECURITY_DELAY = 0, WEATHER_DELAY = 0, Total_Predicted_Delay = 4\<rparr>"]
  by (simp add: spec_rule_def carrier_suggestions_def)

text \<open>
  Claim C4. The total-delay advisory is in the suggestion list exactly when the total
  predicted delay exceeds 20, whatever the three per-cause delays are.
\<close>

theorem advisory_iff_total_gt_20:
  "total_delay_advisory \<in> set (optimize_suggestions row) \<longleftrightarrow> Total_Predicted_Delay row > 20"
  by (simp add: optimize_suggestions_def Let_def carrier_suggestions_def
      weather_suggestions_def security_suggestions_def total_delay_advisory_def
      en_dash_def em_dash_def)

subsection \<open>Data frames and the steps of the alignment\<close>

lemma then_do_simps [simp]:
  "then_do (Inl e) f = Inl e"
  "then_do (Inr x) f = f x"
  by (simp_all add: then_do_def)

lemma then_do_Inr_iff:
  "then_do r f = Inr y \<longleftrightarrow> (\<exists>x. r = Inr x \<and> f x = Inr y)"
  by (cases r) simp_all

lemma series_None_iff: "series df c = None \<longleftrightarrow> c \<notin> set (column_names df)"
  by (simp add: series_def column_names_def map_of_eq_None_iff)

lemma map_of_replace:
  "map_of (map (\<lambda>(k, x). if k = c then (k, v) else (k, x)) cols) k' =
     (if k' = c then (if c \<in> fst ` set cols then Some v else None) else map_of cols k')"
  by (induction cols) (force simp: image_iff)+

lemma series_assign [simp]:
  "series (assign df c v) k = (if k = c then Some v else series df k)"
proof (cases "c \<in> set (column_names df)")
  case True
  then show ?thesis
    by (simp add: series_def assign_def column_names_def map_of_replace)
next
  case False
  then have "map_of (columns df) c = None"
    by (simp add: column_names_def map_of_eq_None_iff)
  with False show ?thesis
    by (auto simp: series_def assign_def map_add_def split: option.splits)
qed

lemma index_assign [simp]: "index (assign df c v) = index df"
  by (simp add: assign_def)

lemma column_names_assign:
  "column_names (assign df c v) =
     (if c \<in> set (column_names df) then column_names df else column_names df @ [c])"
proof -
  have "map fst (map (\<lambda>(k, x). if k = c then (k, v) else (k, x)) cols) = map fst cols" for cols
    by (induction cols) auto
  then show ?thesis by (simp add: assign_def column_names_def)
qed

lemma set_column_names_assign [simp]:
  "set (column_names (assign df c v)) = insert c (set (column_names df))"
  by (auto simp: column_names_assign)

lemma distinct_assign [simp]:
  "distinct (column_names (assign df c v)) = distinct (column_names df)"
  by (simp add: column_names_assign)

subsubsection \<open>The alignment loop\<close>

lemma align_snoc:
  "align d (F @ [f]) =
     assign (align d F) f (case series d f of Some v \<Rightarrow> v | None \<Rightarrow> replicate (index d) (Num 0))"
  by (simp add: align_def)

lemma align_Nil: "align d [] = \<lparr>index = index d, columns = []\<rparr>"
  by (simp add: align_def)

lemma index_align [simp]: "index (align d F) = index d"
  by (induction F rule: rev_induct) (simp_all add: align_Nil align_snoc)

lemma set_column_names_align [simp]: "set (column_names (align d F)) = set F"
proof (induction F rule: rev_induct)
  case Nil
  show ?case by (simp add: align_Nil column_names_def)
next
  case (snoc f F)
  then show ?case by (simp add: align_snoc)
qed



lemma series_align:
  "series (align d F) f =
     (if f \<in> set F
      then Some (case series d f of Some v \<Rightarrow> v | None \<Rightarrow> replicate (index d) (Num 0))
      else None)"
proof (induction F rule: rev_induct)
  case Nil
  show ?case by (simp add: align_Nil series_def)
next
  case (snoc g F)
  then show ?case by (simp add: align_snoc)
qed

subsubsection \<open>Renaming\<close>

lemma index_rename [simp]: "index (rename df) = index df"
  by (simp add: rename_def)

subsubsection \<open>Imputation\<close>

lemma fill_missing_fold:
  "fill_missing df = foldl fill_step df (map fst (filter (\<lambda>(k, x). is_numeric x) (columns df)))"
  by (simp add: fill_missing_def)

lemma series_fill_step:
  "series (fill_step d a) k =
     (if k = a then map_option (\<lambda>x. fillna (median x) x) (series d a) else series d k)"
  by (simp add: fill_step_def split: option.splits)

lemma index_fill_step [simp]: "index (fill_step d a) = index d"
  by (simp add: fill_step_def split: option.splits)

lemma column_names_fill_step [simp]: "column_names (fill_step d a) = column_names d"
  by (auto simp: fill_step_def column_names_assign series_None_iff [symmetric] split: option.splits)

lemma series_fold_fill:
  "distinct ks \<Longrightarrow>
   series (foldl fill_step d ks) k =
     (if k \<in> set ks then map_option (\<lambda>x. fillna (median x) x) (series d k) else series d k)"
proof (induction ks arbitrary: d)
  case Nil
  show ?case by simp
next
  case (Cons a ks)
  then show ?case by (auto simp: series_fill_step)
qed

lemma index_fold_fill [simp]: "index (foldl fill_step d ks) = index d"
  by (induction ks arbitrary: d) simp_all

lemma column_names_fold_fill [simp]: "column_names (foldl fill_step d ks) = column_names d"
  by (induction ks arbitrary: d) simp_all

lemma index_fill_missing [simp]: "index (fill_missing df) = index df"
  by (simp add: fill_missing_fold)

lemma column_names_fill_missing [simp]: "column_names (fill_missing df) = column_names df"
  by (simp add: fill_missing_fold)

lemma numeric_labels:
  assumes "distinct (map fst cols)"
  shows "k \<in> set (map fst (filter (\<lambda>(k, x). is_numeric x) cols)) \<longleftrightarrow>
         (\<exists>x. map_of cols k = Some x \<and> is_numeric x)"
  using assms by (induction cols) (auto simp: image_iff rev_image_eqI)

lemma distinct_numeric_labels:
  "distinct (map fst cols) \<Longrightarrow> distinct (map fst (filter P cols))"
  by (induction cols) auto

lemma series_fill_missing:
  assumes "distinct (column_names df)"
  shows "series (fill_missing df) k =
     (case series df k of
        None \<Rightarrow> None
      | Some x \<Rightarrow> Some (if is_numeric x then fillna (median x) x else x))"
proof -
  let ?ks = "map fst (filter (\<lambda>(k, x). is_numeric x) (columns df))"
  have d: "distinct ?ks"
    using assms by (simp add: column_names_def distinct_numeric_labels)
  have m: "k \<in> set ?ks \<longleftrightarrow> (\<exists>x. series df k = Some x \<and> is_numeric x)"
    using assms numeric_labels [of "columns df" k] by (simp add: column_names_def series_def)
  show ?thesis
    unfolding fill_missing_fold series_fold_fill [OF d]
    using m by (auto split: option.splits)
qed

subsubsection \<open>Element-wise operations\<close>

lemma arith_Inr [simp]: "\<not> list_ex is_text v \<Longrightarrow> arith msg f v = Inr (map (map_num f) v)"
  by (simp add: arith_def)

lemma arith_Inl [simp]: "list_ex is_text v \<Longrightarrow> arith msg f v = Inl (TypeError msg)"
  by (simp add: arith_def)

lemma is_text_map_num [simp]: "is_text (map_num f c) = is_text c"
  by (cases c) simp_all

lemma no_text_map_num [simp]: "list_ex is_text (map (map_num f) v) = list_ex is_text v"
  by (induction v) simp_all

lemma map_num_NaN_iff [simp]: "map_num f c = NaN \<longleftrightarrow> c = NaN"
  by (cases c) simp_all

lemma no_NaN_map_num [simp]:
  "list_ex (\<lambda>c. c = NaN) (map (map_num f) v) = list_ex (\<lambda>c. c = NaN) v"
  by (induction v) simp_all

lemma map_num_map_num [simp]: "map_num f (map_num g c) = map_num (\<lambda>r. f (g r)) c"
  by (cases c) simp_all

lemma map_num_comp [simp]: "map_num f \<circ> map_num g = map_num (\<lambda>r. f (g r))"
  by (rule ext) simp

lemma astype_int8_Inr [simp]:
  "\<not> list_ex (\<lambda>c. c = NaN) v \<Longrightarrow> astype_int8 v = Inr (map (map_num int8) v)"
  by (simp add: astype_int8_def)

lemma astype_int8_Inl [simp]:
  "list_ex (\<lambda>c. c = NaN) v \<Longrightarrow>
   astype_int8 v = Inl (IntCastingNaNError ''Cannot convert non-finite values (NA or inf) to integer'')"
  by (simp add: astype_int8_def)

lemma encode_Inr [simp]: "\<not> list_ex is_text v \<Longrightarrow> encode f p v = Inr (cyc f p v)"
  by (simp add: encode_def cyc_def)

lemma encode_Inl [simp]: "list_ex is_text v \<Longrightarrow> encode f p v = Inl (TypeError mul_msg)"
  by (simp add: encode_def)

lemma no_text_hours [simp]: "list_ex is_text (hours t) = list_ex is_text t"
  by (simp add: hours_def)

lemma no_text_minutes [simp]: "list_ex is_text (minutes t) = list_ex is_text t"
  by (simp add: minutes_def)

lemma hours_Inr:
  "\<not> list_ex is_text t \<Longrightarrow> \<not> list_ex (\<lambda>c. c = NaN) t \<Longrightarrow>
   then_do (arith msg (floordiv 100) t) astype_int8 = Inr (hours t)"
  by (simp add: hours_def)

lemma minutes_Inr:
  "\<not> list_ex is_text t \<Longrightarrow> \<not> list_ex (\<lambda>c. c = NaN) t \<Longrightarrow>
   then_do (arith msg (pymod 100) t) astype_int8 = Inr (minutes t)"
  by (simp add: minutes_def)

subsubsection \<open>Time features\<close>

lemma time_features_absent:
  "series df ''CRS_DEP_TIME'' = None \<Longrightarrow> time_features df = Inr df"
  by (simp add: time_features_def)

lemma time_features_text:
  "series df ''CRS_DEP_TIME'' = Some t \<Longrightarrow> list_ex is_text t \<Longrightarrow>
   time_features df = Inl (TypeError floordiv_msg)"
  by (simp add: time_features_def)

lemma time_features_missing:
  "series df ''CRS_DEP_TIME'' = Some t \<Longrightarrow> \<not> list_ex is_text t \<Longrightarrow> list_ex (\<lambda>c. c = NaN) t \<Longrightarrow>
   time_features df =
     Inl (IntCastingNaNError ''Cannot convert non-finite values (NA or inf) to integer'')"
  by (simp add: time_features_def)

lemma time_features_numbers:
  "series df ''CRS_DEP_TIME'' = Some t \<Longrightarrow> \<not> list_ex is_text t \<Longrightarrow> \<not> list_ex (\<lambda>c. c = NaN) t \<Longrightarrow>
   time_features df = Inr (with_time df t)"
  by (simp add: time_features_def with_time_def hours_def minutes_def Let_def)

lemma index_with_time [simp]: "index (with_time df t) = index df"
  by (simp add: with_time_def)

lemma series_with_time_other:
  "k \<notin> set time_columns \<Longrightarrow> series (with_time df t) k = series df k"
  by (simp add: with_time_def time_columns_def)


lemma time_features_cases:
  obtains (absent) "series df ''CRS_DEP_TIME'' = None" "time_features df = Inr df"
  | (numbers) t where "series df ''CRS_DEP_TIME'' = Some t" "\<not> list_ex is_text t"
      "\<not> list_ex (\<lambda>c. c = NaN) t" "time_features df = Inr (with_time df t)"
  | (raises) e where "time_features df = Inl e"
proof (cases "series df ''CRS_DEP_TIME''")
  case None
  then show ?thesis using absent time_features_absent by blast
next
  case (Some t)
  show ?thesis
  proof (cases "list_ex is_text t")
    case True
    then show ?thesis using raises time_features_text [OF Some] by blast
  next
    case False
    show ?thesis
    proof (cases "list_ex (\<lambda>c. c = NaN) t")
      case True
      then show ?thesis using raises time_features_missing [OF Some False] by blast
    next
      case nonan: False
      then show ?thesis using numbers [OF Some False] time_features_numbers [OF Some False] by blast
    qed
  qed
qed


lemma series_time_features_other:
  "time_features df = Inr d \<Longrightarrow> k \<notin> set time_columns \<Longrightarrow> series d k = series df k"
  by (cases df rule: time_features_cases) (auto simp: series_with_time_other)

subsubsection \<open>Month and weekday features\<close>

lemma cyclic_feature_absent: "series df col = None \<Longrightarrow> cyclic_feature col df = Inr df"
  by (simp add: cyclic_feature_def)

lemma cyclic_feature_text:
  "series df col = Some v \<Longrightarrow> list_ex is_text v \<Longrightarrow>
   cyclic_feature col df = Inl (TypeError mul_msg)"
  by (simp add: cyclic_feature_def Let_def)

lemma cyclic_feature_numbers:
  "series df col = Some v \<Longrightarrow> \<not> list_ex is_text v \<Longrightarrow>
   cyclic_feature col df = Inr (with_cyclic col df v)"
  by (simp add: cyclic_feature_def with_cyclic_def period_of_def Let_def)

lemma cyclic_feature_cases:
  obtains (absent) "series df col = None" "cyclic_feature col df = Inr df"
  | (numbers) v where "series df col = Some v" "\<not> list_ex is_text v"
      "cyclic_feature col df = Inr (with_cyclic col df v)"
  | (raises) v where "series df col = Some v" "list_ex is_text v"
      "cyclic_feature col df = Inl (TypeError mul_msg)"
proof (cases "series df col")
  case None
  then show ?thesis using absent cyclic_feature_absent by blast
next
  case (Some v)
  then show ?thesis
    using numbers [OF Some] raises [OF Some] cyclic_feature_numbers [OF Some]
      cyclic_feature_text [OF Some] by blast
qed

lemma index_with_cyclic [simp]: "index (with_cyclic col df v) = index df"
  by (simp add: with_cyclic_def)

lemma series_with_cyclic:
  "series (with_cyclic col df v) k =
     (if k = col @ ''_COS'' then Some (cyc cos (period_of col) v)
      else if k = col @ ''_SIN'' then Some (cyc sin (period_of col) v)
      else series df k)"
  by (simp add: with_cyclic_def)


lemma series_cyclic_feature_other:
  "cyclic_feature col df = Inr d \<Longrightarrow> k \<noteq> col @ ''_SIN'' \<Longrightarrow> k \<noteq> col @ ''_COS'' \<Longrightarrow>
   series d k = series df k"
  by (rule cyclic_feature_cases [where df = df and col = col]) (auto simp: series_with_cyclic)

lemma cyclic_features_Inr_iff:
  "cyclic_features df = Inr d \<longleftrightarrow>
     (\<exists>d1. cyclic_feature ''MONTH'' df = Inr d1 \<and> cyclic_feature ''DAY_OF_WEEK'' d1 = Inr d)"
  by (simp add: cyclic_features_def then_do_Inr_iff)


lemma series_cyclic_features_other:
  "cyclic_features df = Inr d \<Longrightarrow> k \<notin> set cyclic_columns \<Longrightarrow> series d k = series df k"
  by (auto simp: cyclic_features_Inr_iff cyclic_columns_def dest!: series_cyclic_feature_other [where k = k])

subsubsection \<open>Categorical columns\<close>

lemma categorical_columns_fold:
  "categorical_columns df = foldl cat_step df CATEGORICAL_COLS_FOR_XGB"
  by (simp add: categorical_columns_def)

lemma index_cat_step [simp]: "index (cat_step d col) = index d"
  by (simp add: cat_step_def split: option.splits)

lemma series_cat_step:
  "series (cat_step d col) k =
     (if k = col \<and> series d k = None then Some (replicate (index d) NaN) else series d k)"
  by (auto simp: cat_step_def split: option.splits)

lemma index_fold_cat [simp]: "index (foldl cat_step d cs) = index d"
  by (induction cs arbitrary: d) simp_all

lemma series_fold_cat:
  "series (foldl cat_step d cs) k =
     (if k \<in> set cs \<and> series d k = None then Some (replicate (index d) NaN) else series d k)"
  by (induction cs arbitrary: d) (auto simp: series_cat_step)

lemma index_categorical_columns [simp]: "index (categorical_columns df) = index df"
  by (simp add: categorical_columns_fold)

lemma series_categorical_columns:
  "series (categorical_columns df) k =
     (if k \<in> set CATEGORICAL_COLS_FOR_XGB \<and> series df k = None
      then Some (replicate (index df) NaN) else series df k)"
  by (simp add: categorical_columns_fold series_fold_cat)

subsubsection \<open>Indicator columns\<close>

lemma index_get_dummies [simp]: "index (get_dummies fmt df) = index df"
  by (simp add: get_dummies_def split: option.splits)

lemma map_of_filter_neq:
  "k \<noteq> c \<Longrightarrow> map_of (filter (\<lambda>(k, x). k \<noteq> c) cols) k = map_of cols k"
  by (induction cols) auto

lemma series_get_dummies_kept:
  "k \<noteq> ''OPERATING_AIRLINE'' \<Longrightarrow> series df k = Some v \<Longrightarrow> series (get_dummies fmt df) k = Some v"
  by (simp add: get_dummies_def series_def map_of_filter_neq split: option.splits)


subsubsection \<open>The steps before alignment\<close>

lemma prepare_Inr_iff:
  "prepare fmt df = Inr d \<longleftrightarrow>
     (\<exists>d1 d2. time_features (fill_missing (rename df)) = Inr d1 \<and> cyclic_features d1 = Inr d2 \<and>
        d = get_dummies fmt (categorical_columns d2))"
  by (auto simp: prepare_def then_do_Inr_iff)


lemma transform_Inr_iff:
  "transform_data_for_inference fmt df F = Inr X \<longleftrightarrow> (\<exists>d. prepare fmt df = Inr d \<and> X = align d F)"
  by (auto simp: transform_data_for_inference_def then_do_Inr_iff)

lemma series_fill_missing_None [simp]: "series (fill_missing df) k = None \<longleftrightarrow> series df k = None"
  by (simp add: series_None_iff)

lemma prepare_without_time:
  assumes "series (rename df) ''CRS_DEP_TIME'' = None" "series (rename df) ''MONTH'' = None"
    "series (rename df) ''DAY_OF_WEEK'' = None"
  shows "prepare fmt df = Inr (get_dummies fmt (categorical_columns (fill_missing (rename df))))"
  using assms
  by (simp add: prepare_def time_features_absent cyclic_features_def cyclic_feature_absent)

subsection \<open>The upload endpoint\<close>

lemma predict_csv_never_raises: "\<exists>st' response. predict_csv w st = (st', Inr response)"
  by (simp add: predict_csv_def split: prod.splits sum.splits)

lemma load_missing:
  "fs filename = None \<Longrightarrow> load_feature_names fs filename =
     Inl (FileNotFoundError (''Feature names file '' @ [CHR 0x27] @ filename @ [CHR 0x27] @ '' not found.''))"
  by (simp add: load_feature_names_def)

lemma predict_missing_file:
  assumes "read_csv w = Inr df" "files w ''feature_names.txt'' = None"
  shows "predict_csv w st = (st\<lparr>uploaded_df := df\<rparr>,
     Inr (error_envelope (''Feature names file '' @ [CHR 0x27] @ ''feature_names.txt'' @ [CHR 0x27] @ '' not found.'')))"
  using assms by (simp add: predict_csv_def predict_csv_try_def run_model_def load_feature_names_def)

lemma row_result_no_tail:
  "tail_numbers p = None \<Longrightarrow> row_result p (detect_anomalies p) i = Inl (KeyError TAIL_NUMBER_COL)"
  by (simp add: row_result_def select_anomalies_def detect_anomalies_def Let_def)

lemma collect_no_tail:
  assumes "tail_numbers p = None" "0 < n"
  shows "collect (row_result p (detect_anomalies p)) [0 ..< n] = Inl (KeyError TAIL_NUMBER_COL)"
proof -
  from assms(2) have "[0 ..< n] = 0 # [Suc 0 ..< n]" by (simp add: upt_conv_Cons)
  then show ?thesis using assms(1) by (simp add: row_result_no_tail)
qed

lemma build_predictions_simps [simp]:
  "tail_numbers (build_predictions df y) = map_option (reindex (length y)) (series df TAIL_NUMBER_COL)"
  "length (rows (build_predictions df y)) = length y"
  by (simp_all add: build_predictions_def)

lemma predict_csv_try_success:
  assumes "read_csv w = Inr df" "run_model w df = Inr y"
  shows "fst (predict_csv_try w st) =
           st\<lparr>uploaded_df := df, predictions_df := build_predictions df y,
              anomalies_df := detect_anomalies (build_predictions df y)\<rparr>"
    and "snd (predict_csv_try w st) =
           (case collect (row_result (build_predictions df y)
                            (detect_anomalies (build_predictions df y))) [0 ..< length y] of
              Inl e \<Rightarrow> Inl e
            | Inr results \<Rightarrow> Inr (success_envelope results))"
  using assms by (simp_all add: predict_csv_try_def Let_def split: sum.splits)

lemma predict_csv_fst: "fst (predict_csv w st) = fst (predict_csv_try w st)"
  by (simp add: predict_csv_def split: prod.splits sum.splits)

lemma predict_csv_snd:
  "snd (predict_csv w st) =
     (case snd (predict_csv_try w st) of
        Inl e \<Rightarrow> Inr (error_envelope (str_exn e))
      | Inr response \<Rightarrow> Inr response)"
  by (simp add: predict_csv_def split: prod.splits sum.splits)

lemma predict_csv_try_failure:
  assumes "read_csv w = Inr df" "run_model w df = Inl e"
  shows "predict_csv_try w st = (st\<lparr>uploaded_df := df\<rparr>, Inl e)"
  using assms by (simp add: predict_csv_try_def)

lemma predict_no_tail:
  assumes "read_csv w = Inr df" "series df TAIL_NUMBER_COL = None"
  shows "snd (predict_csv w st) =
     (case run_model w df of
        Inl e \<Rightarrow> Inr (error_envelope (str_exn e))
      | Inr y \<Rightarrow> if y = [] then Inr (success_envelope [])
                 else Inr (error_envelope (str_exn (KeyError TAIL_NUMBER_COL))))"
proof (cases "run_model w df")
  case (Inl e)
  with assms show ?thesis by (simp add: predict_csv_snd predict_csv_try_failure)
next
  case (Inr y)
  show ?thesis
  proof (cases "y = []")
    case True
    with Inr show ?thesis
      by (simp add: predict_csv_snd predict_csv_try_success(2) [OF assms(1) Inr])
  next
    case False
    then have "0 < length y" by simp
    then have "collect (row_result (build_predictions df y) (detect_anomalies (build_predictions df y)))
                 [0 ..< length y] = Inl (KeyError TAIL_NUMBER_COL)"
      using assms(2) by (intro collect_no_tail) simp_all
    with False Inr show ?thesis
      by (simp add: predict_csv_snd predict_csv_try_success(2) [OF assms(1) Inr])
  qed
qed


lemma run_model_sample:
  assumes "series (rename df) ''CRS_DEP_TIME'' = None" "series (rename df) ''MONTH'' = None"
    "series (rename df) ''DAY_OF_WEEK'' = None"
  shows "run_model (sample_world df y) df = Inr (take (index df) y)"
  using assms
  by (simp add: run_model_def sample_world_def load_feature_names_def
      transform_data_for_inference_def prepare_without_time)

lemma rename_samples:
  "series (rename header_only) k = (if k = ''ORIGIN_AIRPORT_CODE'' \<or> k = ''DEST_AIRPORT_CODE'' then Some [] else None)"
  "series (rename one_flight) k =
     (if k = ''ORIGIN_AIRPORT_CODE'' then Some [Str ''JFK'']
      else if k = ''DEST_AIRPORT_CODE'' then Some [Str ''LAX''] else None)"
  "series (rename same_tail_twice) k =
     (if k = ''TAIL_NUMBER'' then Some [Str ''N100'', Str ''N100'']
      else if k = ''ORIGIN_AIRPORT_CODE'' then Some [Str ''JFK'', Str ''SFO''] else None)"
  by (simp_all add: rename_def column_mapping_def series_def header_only_def one_flight_def
      same_tail_twice_def)

lemma run_model_samples:
  "run_model (sample_world header_only y) header_only = Inr []"
  "run_model (sample_world one_flight y) one_flight = Inr (take 1 y)"
  "run_model (sample_world same_tail_twice y) same_tail_twice = Inr (take 2 y)"
  by (simp_all add: run_model_sample rename_samples)
     (simp_all add: header_only_def one_flight_def same_tail_twice_def)

text \<open>
  Claim C6, as the specification words it, fails: with the feature-name file absent,
  \<open>load_feature_names\<close> raises \<open>FileNotFoundError\<close> inside the \<open>try\<close> block, and
  the handler turns it into the error envelope. No exception leaves the endpoint.
\<close>

theorem missing_feature_file_is_caught:
  "files no_files_world ''feature_names.txt'' = None \<and>
   load_feature_names (files no_files_world) ''feature_names.txt'' =
     Inl (FileNotFoundError missing_file_message) \<and>
   snd (predict_csv no_files_world initial_state) = Inr (error_envelope missing_file_message)"
  by (simp add: no_files_world_def predict_csv_def predict_csv_try_def run_model_def
      load_feature_names_def missing_file_message_def)

text \<open>
  Claim C6, amended. \<open>predict_csv\<close> always returns a response; whatever exception the
  \<open>try\<close> block raises is returned as the error envelope with that exception's
  message; in particular, when the uploaded file parses and the feature-name file is
  absent, \<open>load_feature_names\<close> raises \<open>FileNotFoundError\<close> and the response is the
  error envelope with its message, the upload being kept in \<open>uploaded_df\<close>.
\<close>

theorem predict_csv_converts_every_exception:
  "(\<exists>st' response. predict_csv w st = (st', Inr response)) \<and>
   (\<forall>st' e. predict_csv_try w st = (st', Inl e) \<longrightarrow>
      predict_csv w st = (st', Inr (error_envelope (str_exn e)))) \<and>
   (\<forall>df. read_csv w = Inr df \<and> files w ''feature_names.txt'' = None \<longrightarrow>
      load_feature_names (files w) ''feature_names.txt'' =
        Inl (FileNotFoundError missing_file_message) \<and>
      predict_csv w st = (st\<lparr>uploaded_df := df\<rparr>, Inr (error_envelope missing_file_message)))"
proof (intro conjI allI impI)
  show "\<exists>st' response. predict_csv w st = (st', Inr response)"
    by (rule predict_csv_never_raises)
next
  fix st' e
  assume "predict_csv_try w st = (st', Inl e)"
  then show "predict_csv w st = (st', Inr (error_envelope (str_exn e)))"
    by (simp add: predict_csv_def)
next
  fix df
  assume a: "read_csv w = Inr df \<and> files w ''feature_names.txt'' = None"
  then show "load_feature_names (files w) ''feature_names.txt'' =
        Inl (FileNotFoundError missing_file_message)"
    by (simp add: load_feature_names_def missing_file_message_def)
  from a show "predict_csv w st =
      (st\<lparr>uploaded_df := df\<rparr>, Inr (error_envelope missing_file_message))"
    by (simp add: predict_csv_def predict_csv_try_def run_model_def load_feature_names_def
        missing_file_message_def)
qed

theorem predict_csv_converts_every_exception_witness:
  "read_csv no_files_world = Inr \<lparr>index = 1, columns = [(''ORIGIN'', [Str ''JFK''])]\<rparr> \<and>
   files no_files_world ''feature_names.txt'' = None \<and>
   predict_csv no_files_world initial_state =
     (initial_state\<lparr>uploaded_df := \<lparr>index = 1, columns = [(''ORIGIN'', [Str ''JFK''])]\<rparr>\<rparr>,
      Inr (error_envelope missing_file_message))"
  using predict_csv_converts_every_exception [of no_files_world initial_state]
  by (simp add: no_files_world_def)

text \<open>
  Claim C9, as stated for every CSV without a \<open>TAIL_NUMBER\<close> column, fails on a table
  with a header and no row: the loop over the predictions does not run, and the response
  is the success envelope with an empty list.
\<close>

theorem header_only_upload_succeeds:
  "series header_only TAIL_NUMBER_COL = None \<and>
   snd (predict_csv (sample_world header_only [(20, 8, 15)]) initial_state) =
     Inr (success_envelope [])"
proof -
  have t: "series header_only TAIL_NUMBER_COL = None"
    by (simp add: series_def header_only_def TAIL_NUMBER_COL_def)
  have r: "read_csv (sample_world header_only [(20, 8, 15)]) = Inr header_only"
    by (simp add: sample_world_def)
  show ?thesis
    using predict_no_tail [OF r t, of initial_state] t by (simp add: run_model_samples)
qed

text \<open>
  Claim C9, amended. For an upload whose table has no \<open>TAIL_NUMBER\<close> column: when a
  step up to the model's prediction raises, the response is the error envelope of that
  exception; when the model returns at least one row, the anomaly lookup of the first row
  raises \<open>KeyError\<close> for the absent label and the response is its error envelope, never
  a result keyed by \<open>Flight_i\<close>; when the model returns no row, the response is the
  success envelope with an empty list.
\<close>

theorem upload_without_tail_number:
  assumes "read_csv w = Inr df" and "series df TAIL_NUMBER_COL = None"
  shows "snd (predict_csv w st) =
     (case run_model w df of
        Inl e \<Rightarrow> Inr (error_envelope (str_exn e))
      | Inr y_pred \<Rightarrow>
          if y_pred = [] then Inr (success_envelope [])
          else Inr (error_envelope (str_exn (KeyError TAIL_NUMBER_COL))))"
  using assms by (rule predict_no_tail)

theorem upload_without_tail_number_witness:
  "read_csv (sample_world one_flight [(20, 8, 15)]) = Inr one_flight \<and>
   series one_flight TAIL_NUMBER_COL = None \<and>
   snd (predict_csv (sample_world one_flight [(20, 8, 15)]) initial_state) =
     Inr (error_envelope ([CHR 0x27] @ ''TAIL_NUMBER'' @ [CHR 0x27]))"
proof -
  have t: "series one_flight TAIL_NUMBER_COL = None"
    by (simp add: series_def one_flight_def TAIL_NUMBER_COL_def)
  have r: "read_csv (sample_world one_flight [(20, 8, 15)]) = Inr one_flight"
    by (simp add: sample_world_def)
  show ?thesis
    using upload_without_tail_number [OF r t, of initial_state] r t
    by (simp add: run_model_samples TAIL_NUMBER_COL_def)
qed

subsection \<open>The lookup endpoint\<close>

lemma fst_predict_one_flight:
  "fst (predict_csv (sample_world one_flight [(20, 8, 15)]) initial_state) =
     initial_state\<lparr>uploaded_df := one_flight,
        predictions_df := build_predictions one_flight [(20, 8, 15)],
        anomalies_df := detect_anomalies (build_predictions one_flight [(20, 8, 15)])\<rparr>"
proof -
  have r: "read_csv (sample_world one_flight [(20, 8, 15)]) = Inr one_flight"
    by (simp add: sample_world_def)
  have m: "run_model (sample_world one_flight [(20, 8, 15)]) one_flight = Inr [(20, 8, 15)]"
    by (simp add: run_model_samples)
  show ?thesis
    by (simp add: predict_csv_fst predict_csv_try_success(1) [OF r m])
qed

text \<open>
  Claim C5 says the lookup never faults and answers "no predictions" before any
  successful upload. The code does not: an upload of one flight without a
  \<open>TAIL_NUMBER\<close> column fails (error envelope) after \<open>predictions_df\<close> has been
  assigned, and a lookup in the state it leaves raises \<open>KeyError\<close>, which nothing
  catches.
\<close>

theorem lookup_faults_after_failed_upload:
  "snd (predict_csv (sample_world one_flight [(20, 8, 15)]) initial_state) =
     Inr (error_envelope ([CHR 0x27] @ ''TAIL_NUMBER'' @ [CHR 0x27])) \<and>
   get_flight_info (fst (predict_csv (sample_world one_flight [(20, 8, 15)]) initial_state))
     ''N100'' = Inl (KeyError ''TAIL_NUMBER'')"
proof -
  have t: "series one_flight TAIL_NUMBER_COL = None"
    by (simp add: series_def one_flight_def TAIL_NUMBER_COL_def)
  have r: "read_csv (sample_world one_flight [(20, 8, 15)]) = Inr one_flight"
    by (simp add: sample_world_def)
  have a: "snd (predict_csv (sample_world one_flight [(20, 8, 15)]) initial_state) =
     Inr (error_envelope ([CHR 0x27] @ ''TAIL_NUMBER'' @ [CHR 0x27]))"
    using predict_no_tail [OF r t, of initial_state]
    by (simp add: run_model_samples TAIL_NUMBER_COL_def)
  have b: "get_flight_info (fst (predict_csv (sample_world one_flight [(20, 8, 15)]) initial_state))
     ''N100'' = Inl (KeyError ''TAIL_NUMBER'')"
    using t by (subst fst_predict_one_flight)
      (simp add: get_flight_info_def build_predictions_def TAIL_NUMBER_COL_def)
  from a b show ?thesis by simp
qed


lemma cell_eq_Str: "cell_eq c (Str t) \<longleftrightarrow> c = Str t"
  by (auto simp: cell_eq_def)





lemma lookup_before_any_upload:
  "get_flight_info initial_state t =
     Inr (error_message ''No predictions available. Please upload a CSV first.'')"
  by (simp add: get_flight_info_def initial_state_def)

lemma lookup_unknown_identifier:
  assumes "tail_numbers (predictions_df st) = Some ts" "rows (predictions_df st) \<noteq> []"
    and "Str t \<notin> set ts"
  shows "get_flight_info st t = Inr (error_message ''Tail number not found.'')"
proof -
  have "filter (\<lambda>(c, r). cell_eq c (Str t)) (zip ts (rows (predictions_df st))) = []"
    using assms(3) by (auto simp: filter_empty_conv cell_eq_Str dest: set_zip_leftD)
  then show ?thesis using assms(1,2) by (simp add: get_flight_info_def)
qed

subsection \<open>Feature alignment\<close>



lemma is_text_median [simp]: "\<not> is_text (median v)"
  by (simp add: median_def Let_def)

lemma text_fillna: "\<not> is_text val \<Longrightarrow> list_ex is_text (fillna val v) = list_ex is_text v"
  by (induction v) (auto simp: fillna_def)

lemma text_imputed [simp]: "list_ex is_text (imputed x) = list_ex is_text x"
  by (simp add: imputed_def text_fillna)



















lemma series_prepare_kept:
  assumes "prepare fmt df = Inr d"
    and "k \<notin> set time_columns" "k \<notin> set cyclic_columns" "k \<noteq> ''OPERATING_AIRLINE''"
    and "series (fill_missing (rename df)) k = Some v"
  shows "series d k = Some v"
proof -
  from assms(1) obtain d1 d2 where
    t: "time_features (fill_missing (rename df)) = Inr d1" and
    c: "cyclic_features d1 = Inr d2" and
    d: "d = get_dummies fmt (categorical_columns d2)"
    by (auto simp: prepare_Inr_iff)
  have "series d1 k = Some v"
    using series_time_features_other [OF t assms(2)] assms(5) by simp
  then have "series d2 k = Some v"
    using series_cyclic_features_other [OF c assms(3)] by simp
  then have "series (categorical_columns d2) k = Some v"
    by (simp add: series_categorical_columns)
  then show ?thesis
    unfolding d using assms(4) by (simp add: series_get_dummies_kept)
qed

text \<open>
  Claim C7. For every numeric column of the uploaded batch (after renaming), the
  imputation step replaces each missing value by the median of that column's values in
  this batch and leaves the other values as they are; the aligned matrix carries the
  column so imputed for every expected feature of that name that no later step writes.
  (The median of a column without any number is missing, and such a column stays as it
  is.) The example after the theorem shows the same record imputed differently in two
  batches.
\<close>

theorem median_imputation:
  assumes "distinct (column_names (rename df))"
    and "series (rename df) col = Some x" and "is_numeric x"
  shows "series (fill_missing (rename df)) col =
           Some (map (\<lambda>c. if c = NaN then median x else c) x) \<and>
         (\<forall>fmt F X. transform_data_for_inference fmt df F = Inr X \<and> col \<in> set F \<and>
              col \<notin> set time_columns \<and> col \<notin> set cyclic_columns \<and>
              col \<noteq> ''OPERATING_AIRLINE'' \<longrightarrow>
            series X col = Some (map (\<lambda>c. if c = NaN then median x else c) x))"
proof (intro conjI allI impI)
  show f: "series (fill_missing (rename df)) col =
           Some (map (\<lambda>c. if c = NaN then median x else c) x)"
    using assms by (simp add: series_fill_missing fillna_def)
  fix fmt F X
  assume a: "transform_data_for_inference fmt df F = Inr X \<and> col \<in> set F \<and>
              col \<notin> set time_columns \<and> col \<notin> set cyclic_columns \<and>
              col \<noteq> ''OPERATING_AIRLINE''"
  then obtain d where d: "prepare fmt df = Inr d" and X: "X = align d F"
    by (auto simp: transform_Inr_iff)
  have "series d col = Some (map (\<lambda>c. if c = NaN then median x else c) x)"
    using a by (simp add: series_prepare_kept [OF d _ _ _ f])
  then show "series X col = Some (map (\<lambda>c. if c = NaN then median x else c) x)"
    using a by (simp add: X series_align)
qed

theorem median_imputation_witness:
  "distinct (column_names (rename batch_a)) \<and>
   series (rename batch_a) ''DISTANCE'' = Some [NaN, Num 10, Num 20] \<and>
   is_numeric [NaN, Num 10, Num 20] \<and>
   series (fill_missing (rename batch_a)) ''DISTANCE'' = Some [Num 15, Num 10, Num 20] \<and>
   series (rename batch_b) ''DISTANCE'' = Some [NaN, Num 10, Num 40] \<and>
   series (fill_missing (rename batch_b)) ''DISTANCE'' = Some [Num 25, Num 10, Num 40]"
proof -
  have a: "distinct (column_names (rename batch_a))" "distinct (column_names (rename batch_b))"
    by (simp_all add: batch_a_def batch_b_def rename_def column_mapping_def column_names_def)
  have sa: "series (rename batch_a) ''DISTANCE'' = Some [NaN, Num 10, Num 20]"
    by (simp add: batch_a_def rename_def column_mapping_def series_def)
  have sb: "series (rename batch_b) ''DISTANCE'' = Some [NaN, Num 10, Num 40]"
    by (simp add: batch_b_def rename_def column_mapping_def series_def)
  have n: "is_numeric [NaN, Num 10, Num 20]" "is_numeric [NaN, Num 10, Num 40]"
    by (simp_all add: is_numeric_def)
  have m: "median [NaN, Num 10, Num 20] = Num 15" "median [NaN, Num 10, Num 40] = Num 25"
    by (simp_all add: median_def Let_def)
  show ?thesis
    using median_imputation [OF a(1) sa n(1)] median_imputation [OF a(2) sb n(2)] a sa sb n
    by (simp add: m)
qed













end
